theory Spec2Isabelle
  imports Main
begin

section \<open>Qt value types used by the sources\<close>

text \<open>
  The two source files, \<^verbatim>\<open>NodePermissions.h\<close> and \<^verbatim>\<open>AccountManager.cpp\<close>, are
  written against Qt. The Qt classes are not part of the repository; each one is
  modelled by the data it carries and by the documented behaviour of the member
  functions the sources call.
\<close>

subsection \<open>QString helpers\<close>

text \<open>
  \<^verbatim>\<open>QString::replace(before, after)\<close>: every occurrence of \<open>bef\<close>, found from left
  to right without overlap, is replaced by \<open>aft\<close>. The sources call it with non-empty
  patterns only (\<^verbatim>\<open>"//"\<close> in \<^verbatim>\<open>requestFinished\<close>); an empty pattern finds nothing
  here.
\<close>

fun replace :: "string \<Rightarrow> string \<Rightarrow> string \<Rightarrow> string" where
  "replace bef aft [] = []"
| "replace bef aft (c # cs) =
     (if bef \<noteq> [] \<and> take (length bef) (c # cs) = bef
      then aft @ replace bef aft (drop (length bef - 1) cs)
      else c # replace bef aft cs)"

text \<open>\<^verbatim>\<open>QString::toLower\<close> on the ASCII range, which is all \<^verbatim>\<open>QVariant::toBool\<close> needs.\<close>

definition toLower_char :: "char \<Rightarrow> char" where
  "toLower_char c =
     (let n = (of_char c :: nat)
      in if 65 \<le> n \<and> n \<le> 90 then char_of (n + 32) else c)"

definition toLower :: "string \<Rightarrow> string" where
  "toLower s = map toLower_char s"

subsection \<open>QVariant and QMap<QString, QVariant>\<close>

text \<open>
  A \<^verbatim>\<open>QVariant\<close> is a tagged union. The tags that \<^verbatim>\<open>NodePermissions\<close> produces or
  reads are the invalid (default-constructed) variant, a bool, a string and a
  string-keyed map of variants.
\<close>

datatype QVariant =
    VInvalid
  | VBool bool
  | VString string
  | VMap "string \<Rightarrow> QVariant option"

type_synonym QVariantMap = "string \<Rightarrow> QVariant option"

text \<open>
  \<^verbatim>\<open>QVariant::toString\<close>: a string is returned as it is, a bool as \<^verbatim>\<open>"true"\<close> or
  \<^verbatim>\<open>"false"\<close>; an invalid variant and a map give the empty string.
\<close>

fun toString :: "QVariant \<Rightarrow> string" where
  "toString (VString s) = s"
| "toString (VBool b) = (if b then ''true'' else ''false'')"
| "toString VInvalid = []"
| "toString (VMap m) = []"

text \<open>
  \<^verbatim>\<open>QVariant::toBool\<close>: a bool is returned as it is; a string is true unless its
  lower-case content is empty, \<^verbatim>\<open>"0"\<close> or \<^verbatim>\<open>"false"\<close>; an invalid variant and a map
  give false.
\<close>

fun toBool :: "QVariant \<Rightarrow> bool" where
  "toBool (VBool b) = b"
| "toBool (VString s) = (toLower s \<notin> {[], ''0'', ''false''})"
| "toBool VInvalid = False"
| "toBool (VMap m) = False"

text \<open>\<^verbatim>\<open>QVariant::toMap\<close>: the map of a map variant, the empty map otherwise.\<close>

fun toMap :: "QVariant \<Rightarrow> QVariantMap" where
  "toMap (VMap m) = m"
| "toMap v = Map.empty"

text \<open>
  \<^verbatim>\<open>perms["key"]\<close> on a non-const \<^verbatim>\<open>QMap\<close>: the stored value, or a default-constructed
  (invalid) variant when the key is absent. The constructor below indexes its own
  by-value copy of the map, so the entry that \<^verbatim>\<open>operator[]\<close> inserts for an absent key
  is not observable.
\<close>

definition index :: "QVariantMap \<Rightarrow> string \<Rightarrow> QVariant" where
  "index perms key = (case perms key of None \<Rightarrow> VInvalid | Some v \<Rightarrow> v)"


section \<open>NodePermissions.h\<close>

text \<open>
  The class has the protected member \<^verbatim>\<open>_id\<close> (read by \<^verbatim>\<open>getID\<close>) and six public
  bool members. A member \<^verbatim>\<open>_name\<close> of the sources is the field \<open>m_name\<close> here.
\<close>

record NodePermissions =
  m_id :: string
  canConnectToDomain :: bool
  canAdjustLocks :: bool
  canRezPermanentEntities :: bool
  canRezTemporaryEntities :: bool
  canWriteToAssetServer :: bool
  canConnectPastMaxCapacity :: bool

definition getID :: "NodePermissions \<Rightarrow> string" where
  "getID p = m_id p"

text \<open>
  The default member initializers (lines 47 to 52): what every constructor that does
  not assign a flag leaves in it.
\<close>

definition initialized :: "string \<Rightarrow> NodePermissions" where
  "initialized i =
     \<lparr> m_id = i,
       canConnectToDomain = True,
       canAdjustLocks = False,
       canRezPermanentEntities = False,
       canRezTemporaryEntities = False,
       canWriteToAssetServer = False,
       canConnectPastMaxCapacity = False \<rparr>"

text \<open>
  \<^verbatim>\<open>NodePermissions()\<close> takes its identifier from \<^verbatim>\<open>QUuid::createUuid().toString()\<close>;
  the generated string is the argument \<open>uuid\<close>.
\<close>

definition NodePermissions_fresh :: "string \<Rightarrow> NodePermissions" where
  "NodePermissions_fresh uuid = (initialized [])\<lparr> m_id := uuid \<rparr>"

text \<open>\<^verbatim>\<open>NodePermissions(const QString& name)\<close>.\<close>

definition NodePermissions_named :: "string \<Rightarrow> NodePermissions" where
  "NodePermissions_named name = (initialized [])\<lparr> m_id := name \<rparr>"

text \<open>\<^verbatim>\<open>NodePermissions(QMap<QString, QVariant> perms)\<close>.\<close>

definition NodePermissions_fromMap :: "QVariantMap \<Rightarrow> NodePermissions" where
  "NodePermissions_fromMap perms =
     (initialized [])
       \<lparr> m_id := toString (index perms ''permissions_id''),
         canConnectToDomain := toBool (index perms ''id_can_connect''),
         canAdjustLocks := toBool (index perms ''id_can_adjust_locks''),
         canRezPermanentEntities := toBool (index perms ''id_can_rez''),
         canRezTemporaryEntities := toBool (index perms ''id_can_rez_tmp''),
         canWriteToAssetServer := toBool (index perms ''id_can_write_to_asset_server''),
         canConnectPastMaxCapacity := toBool (index perms ''id_can_connect_past_max_capacity'') \<rparr>"

text \<open>\<^verbatim>\<open>setAll(bool value)\<close>.\<close>

definition setAll :: "bool \<Rightarrow> NodePermissions \<Rightarrow> NodePermissions" where
  "setAll v p =
     p\<lparr> canConnectToDomain := v,
        canAdjustLocks := v,
        canRezPermanentEntities := v,
        canRezTemporaryEntities := v,
        canWriteToAssetServer := v,
        canConnectPastMaxCapacity := v \<rparr>"

text \<open>
  \<^verbatim>\<open>toVariant()\<close>: the seven assignments \<^verbatim>\<open>values[key] = member\<close> in source order, then
  the map wrapped in a variant.
\<close>

definition toVariant :: "NodePermissions \<Rightarrow> QVariant" where
  "toVariant p =
     VMap (Map.empty
       (''permissions_id'' \<mapsto> VString (m_id p),
        ''id_can_connect'' \<mapsto> VBool (canConnectToDomain p),
        ''id_can_adjust_locks'' \<mapsto> VBool (canAdjustLocks p),
        ''id_can_rez'' \<mapsto> VBool (canRezPermanentEntities p),
        ''id_can_rez_tmp'' \<mapsto> VBool (canRezTemporaryEntities p),
        ''id_can_write_to_asset_server'' \<mapsto> VBool (canWriteToAssetServer p),
        ''id_can_connect_past_max_capacity'' \<mapsto> VBool (canConnectPastMaxCapacity p)))"

text \<open>
  Modelled from the spec: \<^verbatim>\<open>NodePermissions::operator|=(const NodePermissions&)\<close> is
  declared on line 75 and defined in \<^verbatim>\<open>NodePermissions.cpp\<close>, which is not among the
  sources. The spec: "Merge operation is boolean OR across all flags, identifier
  untouched."
\<close>

definition or_assign :: "NodePermissions \<Rightarrow> NodePermissions \<Rightarrow> NodePermissions" where
  "or_assign lhs rhs =
     lhs\<lparr> canConnectToDomain := canConnectToDomain lhs \<or> canConnectToDomain rhs,
          canAdjustLocks := canAdjustLocks lhs \<or> canAdjustLocks rhs,
          canRezPermanentEntities := canRezPermanentEntities lhs \<or> canRezPermanentEntities rhs,
          canRezTemporaryEntities := canRezTemporaryEntities lhs \<or> canRezTemporaryEntities rhs,
          canWriteToAssetServer := canWriteToAssetServer lhs \<or> canWriteToAssetServer rhs,
          canConnectPastMaxCapacity :=
            canConnectPastMaxCapacity lhs \<or> canConnectPastMaxCapacity rhs \<rparr>"

text \<open>
  \<^verbatim>\<open>const NodePermissions DEFAULT_AGENT_PERMISSIONS;\<close> is default-constructed, so its
  identifier is the string the UUID generator returned at static initialization.
\<close>

definition DEFAULT_AGENT_PERMISSIONS :: "string \<Rightarrow> NodePermissions" where
  "DEFAULT_AGENT_PERMISSIONS uuid = NodePermissions_fresh uuid"


section \<open>More Qt types: URLs, JSON, network requests\<close>

subsection \<open>QUrl\<close>

text \<open>
  A \<^verbatim>\<open>QUrl\<close> is held by its five components (RFC 3986, section 3). The authority,
  the query and the fragment can be absent, which differs from being empty; the
  strings are the components as \<^verbatim>\<open>toString\<close> shows them.
\<close>

record QUrl =
  url_scheme :: string
  url_authority :: "string option"
  url_path :: string
  url_query :: "string option"
  url_fragment :: "string option"

text \<open>\<^verbatim>\<open>QUrl()\<close>, the default-constructed URL of \<^verbatim>\<open>_rootURL()\<close>.\<close>

definition QUrl_null :: QUrl where
  "QUrl_null =
     \<lparr> url_scheme = [], url_authority = None, url_path = [],
       url_query = None, url_fragment = None \<rparr>"

text \<open>\<^verbatim>\<open>QUrl::setPath\<close> replaces the path and nothing else.\<close>

definition setPath :: "string \<Rightarrow> QUrl \<Rightarrow> QUrl" where
  "setPath p u = u\<lparr> url_path := p \<rparr>"

text \<open>
  \<^verbatim>\<open>QUrl::setQuery(const QString&)\<close> replaces the query and nothing else. The one call
  in the sources passes \<^verbatim>\<open>"access_token=" + token\<close>, which is never a null string, so
  the URL has a query afterwards.
\<close>

definition setQuery :: "string \<Rightarrow> QUrl \<Rightarrow> QUrl" where
  "setQuery q u = u\<lparr> url_query := Some q \<rparr>"

text \<open>\<^verbatim>\<open>QUrl::toString()\<close>: the components put together as in RFC 3986, section 5.3.\<close>

definition QUrl_toString :: "QUrl \<Rightarrow> string" where
  "QUrl_toString u =
     (if url_scheme u = [] then [] else url_scheme u @ '':'')
     @ (case url_authority u of None \<Rightarrow> [] | Some a \<Rightarrow> ''//'' @ a)
     @ url_path u
     @ (case url_query u of None \<Rightarrow> [] | Some q \<Rightarrow> ''?'' @ q)
     @ (case url_fragment u of None \<Rightarrow> [] | Some f \<Rightarrow> ''#'' @ f)"

subsection \<open>QJsonDocument, QJsonObject, QJsonValue\<close>

text \<open>
  JSON values. \<open>JUndefined\<close> is what indexing an object with an absent key returns.
  Numbers are kept as integers: no function of the sources reads one.
\<close>

datatype QJsonValue =
    JUndefined
  | JNull
  | JBool bool
  | JNumber int
  | JString string
  | JArray "QJsonValue list"
  | JObject "(string \<times> QJsonValue) list"

type_synonym QJsonObject = "(string \<times> QJsonValue) list"

datatype QJsonDocument =
    DocNull
  | DocArray "QJsonValue list"
  | DocObject QJsonObject

text \<open>
  \<^verbatim>\<open>QJsonDocument::object()\<close>: the object of a document that holds one, and an empty
  object for any other document (also for the null document that
  \<^verbatim>\<open>QJsonDocument::fromJson\<close> returns on a body that does not parse).
\<close>

fun object :: "QJsonDocument \<Rightarrow> QJsonObject" where
  "object (DocObject obj) = obj"
| "object doc = []"

text \<open>\<^verbatim>\<open>QJsonObject::contains(key)\<close>.\<close>

definition contains :: "QJsonObject \<Rightarrow> string \<Rightarrow> bool" where
  "contains obj key = (map_of obj key \<noteq> None)"

text \<open>\<^verbatim>\<open>rootObject[key]\<close> on a const object.\<close>

definition json_index :: "QJsonObject \<Rightarrow> string \<Rightarrow> QJsonValue" where
  "json_index obj key = (case map_of obj key of None \<Rightarrow> JUndefined | Some v \<Rightarrow> v)"

text \<open>\<^verbatim>\<open>QJsonValue::toString()\<close>: the string of a string value, otherwise the empty string.\<close>

fun json_toString :: "QJsonValue \<Rightarrow> string" where
  "json_toString (JString s) = s"
| "json_toString v = []"

subsection \<open>QNetworkAccessManager, QNetworkRequest, QNetworkReply\<close>

datatype Operation =
    HeadOperation
  | GetOperation
  | PutOperation
  | PostOperation
  | DeleteOperation
  | CustomOperation

text \<open>
  A request: its URL and the one header the sources set,
  \<^verbatim>\<open>QNetworkRequest::ContentTypeHeader\<close>.
\<close>

record QNetworkRequest =
  request_url :: QUrl
  request_contentType :: "string option"

text \<open>\<^verbatim>\<open>QNetworkRequest()\<close>.\<close>

definition QNetworkRequest_new :: QNetworkRequest where
  "QNetworkRequest_new = \<lparr> request_url = QUrl_null, request_contentType = None \<rparr>"

text \<open>A call handed to \<^verbatim>\<open>_networkAccessManager\<close>: \<^verbatim>\<open>get(request)\<close> or \<^verbatim>\<open>post(request, data)\<close>.\<close>

datatype NetworkCall =
    Get QNetworkRequest
  | Post QNetworkRequest string

text \<open>
  Pointers: \<open>None\<close> is \<^verbatim>\<open>NULL\<close>, \<open>Some a\<close> the object at address \<open>a\<close>.
\<close>

type_synonym pointer = "nat option"

text \<open>\<^verbatim>\<open>QNetworkReply::NetworkError\<close>, by the number of the enumerator.\<close>

type_synonym NetworkError = int

text \<open>
  What a slot reads from the reply that sent the signal (\<^verbatim>\<open>sender()\<close>): its address,
  \<^verbatim>\<open>url()\<close>, the document \<^verbatim>\<open>QJsonDocument::fromJson(readAll())\<close> and \<^verbatim>\<open>errorString()\<close>.
\<close>

record QNetworkReply =
  reply_address :: nat
  reply_url :: QUrl
  reply_json :: QJsonDocument
  reply_errorString :: string


section \<open>Types of the account manager declared outside the sources\<close>

text \<open>
  Modelled from the spec: \<^verbatim>\<open>OAuthAccessToken\<close> and \<^verbatim>\<open>DataServerAccountInfo\<close> are declared
  in headers that are not among the sources. The spec: "AccessToken:
  { token: string, tokenType: string, expiry: timestamp }" and "AccountInfo: owns one
  AccessToken". The timestamp is in milliseconds since the epoch.
\<close>

record OAuthAccessToken =
  token :: string
  tokenType :: string
  expiryTimestamp :: int

record DataServerAccountInfo =
  accessToken :: OAuthAccessToken

definition getAccessToken :: "DataServerAccountInfo \<Rightarrow> OAuthAccessToken" where
  "getAccessToken info = accessToken info"

text \<open>
  Modelled from the spec: \<^verbatim>\<open>OAuthAccessToken::isExpired\<close> is not among the sources. The
  spec: "expired is a pure function of expiry vs current time", and a token is no
  longer valid "once the stored token's expiry has passed". The first argument is the
  current time.
\<close>

definition isExpired :: "int \<Rightarrow> OAuthAccessToken \<Rightarrow> bool" where
  "isExpired now t = (expiryTimestamp t < now)"

text \<open>
  Modelled from the spec: the default-constructed \<^verbatim>\<open>DataServerAccountInfo\<close>, which
  \<^verbatim>\<open>QMap::value\<close> returns for an absent key. Its strings are empty, as default-constructed
  \<^verbatim>\<open>QString\<close>s are; the spec: hasValidAccessToken "is false for a URL with no stored
  account". With the empty token the timestamp is never read on that path.
\<close>

definition DataServerAccountInfo_default :: DataServerAccountInfo where
  "DataServerAccountInfo_default =
     \<lparr> accessToken = \<lparr> token = [], tokenType = [], expiryTimestamp = 0 \<rparr> \<rparr>"

text \<open>
  \<^verbatim>\<open>JSONCallbackParameters\<close>, by the four members the sources read: a receiver object
  and a method name for the JSON (success) callback and for the error callback.
\<close>

record JSONCallbackParameters =
  jsonCallbackReceiver :: pointer
  jsonCallbackMethod :: string
  errorCallbackReceiver :: pointer
  errorCallbackMethod :: string

text \<open>
  Modelled from the spec: the default-constructed \<^verbatim>\<open>JSONCallbackParameters\<close>, which
  \<^verbatim>\<open>QMap::value\<close> returns for a reply with no entry. The spec: "absence of a registered
  callback is logged only", so it names no receiver.
\<close>

definition JSONCallbackParameters_default :: JSONCallbackParameters where
  "JSONCallbackParameters_default =
     \<lparr> jsonCallbackReceiver = None, jsonCallbackMethod = [],
       errorCallbackReceiver = None, errorCallbackMethod = [] \<rparr>"

text \<open>
  Modelled from the spec: \<^verbatim>\<open>JSONCallbackParameters::isEmpty\<close> is declared in
  \<^verbatim>\<open>AccountManager.h\<close>, which is not among the sources. The spec describes a callback
  spec as "receiver+method name pairs" for success and for error, and the call site
  inserts "if we have information for a callback": parameters are empty when they name
  no receiver at all.
\<close>

definition isEmpty :: "JSONCallbackParameters \<Rightarrow> bool" where
  "isEmpty p = (jsonCallbackReceiver p = None \<and> errorCallbackReceiver p = None)"

text \<open>\<^verbatim>\<open>QMap::value(key)\<close>: the stored value, or a default-constructed one.\<close>

definition QMap_value :: "'v \<Rightarrow> ('k \<Rightarrow> 'v option) \<Rightarrow> 'k \<Rightarrow> 'v" where
  "QMap_value dflt m key = (case m key of None \<Rightarrow> dflt | Some v \<Rightarrow> v)"


section \<open>AccountManager.cpp\<close>

subsection \<open>The object and its surroundings\<close>

text \<open>
  The data members of \<^verbatim>\<open>AccountManager\<close> that hold state. The pending-callback map is
  keyed by the address of the reply, the accounts map by the root URL.
\<close>

record AccountManager =
  m_rootURL :: QUrl
  m_username :: string
  m_pendingCallbackMap :: "nat \<Rightarrow> JSONCallbackParameters option"
  m_accounts :: "QUrl \<Rightarrow> DataServerAccountInfo option"

text \<open>The signals the class emits.\<close>

datatype Signal =
    authenticationRequired
  | receivedAccessToken QUrl

text \<open>What is streamed into one \<^verbatim>\<open>qDebug()\<close> statement.\<close>

datatype DebugItem =
    Text string
  | Json QJsonDocument
  | Code NetworkError

text \<open>An argument of \<^verbatim>\<open>QMetaObject::invokeMethod\<close>, as \<^verbatim>\<open>Q_ARG\<close> wraps it.\<close>

datatype Arg =
    ArgJsonObject QJsonObject
  | ArgNetworkError NetworkError
  | ArgString string

text \<open>
  Everything outside the object that the member functions read or act on:
  \<^item> \<open>currentMSecsSinceEpoch\<close>: the clock, read when a token is tested for expiry;
  \<^item> \<open>networkCalls\<close>: the calls made on \<^verbatim>\<open>_networkAccessManager\<close>, oldest first;
  \<^item> \<open>connections\<close>: the \<^verbatim>\<open>connect\<close> calls, as (reply address, signal, slot);
  \<^item> \<open>invocations\<close>: the callback methods invoked, as (receiver address, method,
    arguments);
  \<^item> \<open>emitted\<close>: the signals emitted, oldest first;
  \<^item> \<open>settings\<close>: the \<^verbatim>\<open>QSettings\<close> store, a value for a (group, key) pair;
  \<^item> \<open>debug\<close>: the \<^verbatim>\<open>qDebug()\<close> statements executed, oldest first.
\<close>

record Env =
  currentMSecsSinceEpoch :: int
  networkCalls :: "NetworkCall list"
  connections :: "(nat \<times> string \<times> string) list"
  invocations :: "(nat \<times> string \<times> Arg list) list"
  emitted :: "Signal list"
  settings :: "string \<times> string \<Rightarrow> DataServerAccountInfo option"
  debug :: "DebugItem list list"

definition qDebug :: "DebugItem list \<Rightarrow> Env \<Rightarrow> Env" where
  "qDebug items env = env\<lparr> debug := debug env @ [items] \<rparr>"

definition emit :: "Signal \<Rightarrow> Env \<Rightarrow> Env" where
  "emit sig env = env\<lparr> emitted := emitted env @ [sig] \<rparr>"

definition connect :: "nat \<Rightarrow> string \<Rightarrow> string \<Rightarrow> Env \<Rightarrow> Env" where
  "connect sender signal slot env =
     env\<lparr> connections := connections env @ [(sender, signal, slot)] \<rparr>"

definition invokeMethod :: "nat \<Rightarrow> string \<Rightarrow> Arg list \<Rightarrow> Env \<Rightarrow> Env" where
  "invokeMethod receiver method args env =
     env\<lparr> invocations := invocations env @ [(receiver, method, args)] \<rparr>"

text \<open>
  \<^verbatim>\<open>QSettings::beginGroup(grp)\<close> followed by \<^verbatim>\<open>setValue(key, value)\<close>.
\<close>

definition setValue :: "string \<Rightarrow> string \<Rightarrow> DataServerAccountInfo \<Rightarrow> Env \<Rightarrow> Env" where
  "setValue grp key v env = env\<lparr> settings := (settings env)((grp, key) \<mapsto> v) \<rparr>"

text \<open>
  \<^verbatim>\<open>QNetworkAccessManager::get\<close> and \<^verbatim>\<open>post\<close> record the call and return a new reply,
  never \<^verbatim>\<open>NULL\<close>. The address of the reply is the number of the call: these sources
  never delete a reply, so no address is used twice.
\<close>

definition get :: "QNetworkRequest \<Rightarrow> Env \<Rightarrow> pointer \<times> Env" where
  "get request env =
     (Some (length (networkCalls env)),
      env\<lparr> networkCalls := networkCalls env @ [Get request] \<rparr>)"

definition post :: "QNetworkRequest \<Rightarrow> string \<Rightarrow> Env \<Rightarrow> pointer \<times> Env" where
  "post request data env =
     (Some (length (networkCalls env)),
      env\<lparr> networkCalls := networkCalls env @ [Post request data] \<rparr>)"

definition ACCOUNTS_GROUP :: string where
  "ACCOUNTS_GROUP = ''accounts''"

subsection \<open>Member functions\<close>

text \<open>
  Each member function takes the object and its surroundings and returns both as it
  leaves them (and its result first, when it has one).
\<close>

text \<open>\<^verbatim>\<open>setRootURL\<close>, lines 65 to 76.\<close>

definition setRootURL :: "QUrl \<Rightarrow> AccountManager \<Rightarrow> Env \<Rightarrow> AccountManager \<times> Env" where
  "setRootURL rootURL am env =
     (if m_rootURL am \<noteq> rootURL
      then (am\<lparr> m_rootURL := rootURL, m_username := [] \<rparr>,
            qDebug [Text ''Re-setting authentication flow.'']
              (qDebug [Text ''URL for node authentication has been changed to'',
                       Text (QUrl_toString rootURL)] env))
      else (am, env))"

text \<open>\<^verbatim>\<open>hasValidAccessToken\<close>, lines 166 to 175.\<close>

definition hasValidAccessToken :: "AccountManager \<Rightarrow> Env \<Rightarrow> bool \<times> Env" where
  "hasValidAccessToken am env =
     (let accountInfo = QMap_value DataServerAccountInfo_default (m_accounts am) (m_rootURL am)
      in if token (getAccessToken accountInfo) = []
            \<or> isExpired (currentMSecsSinceEpoch env) (getAccessToken accountInfo)
         then (False,
               qDebug [Text ''An access token is required for requests to'',
                       Text (QUrl_toString (m_rootURL am))] env)
         else (True, env))"

text \<open>\<^verbatim>\<open>checkAndSignalForAccessToken\<close>, lines 177 to 186.\<close>

definition checkAndSignalForAccessToken :: "AccountManager \<Rightarrow> Env \<Rightarrow> bool \<times> Env" where
  "checkAndSignalForAccessToken am env =
     (let (hasToken, env1) = hasValidAccessToken am env
      in if \<not> hasToken then (hasToken, emit authenticationRequired env1)
         else (hasToken, env1))"

text \<open>
  \<^verbatim>\<open>invokedRequest\<close>, lines 87 to 126. In the \<^verbatim>\<open>switch\<close>, the \<^verbatim>\<open>PostOperation\<close> case has
  no \<^verbatim>\<open>break\<close> and falls into \<^verbatim>\<open>default\<close>, which only breaks.
\<close>

definition invokedRequest ::
  "string \<Rightarrow> Operation \<Rightarrow> JSONCallbackParameters \<Rightarrow> string
   \<Rightarrow> AccountManager \<Rightarrow> Env \<Rightarrow> AccountManager \<times> Env" where
  "invokedRequest path operation callbackParams dataByteArray am env =
     (let (valid, env1) = hasValidAccessToken am env
      in if valid then
           let requestURL =
                 setQuery (''access_token=''
                     @ token (getAccessToken
                         (QMap_value DataServerAccountInfo_default (m_accounts am) (m_rootURL am))))
                   (setPath path (m_rootURL am));
               authenticatedRequest = QNetworkRequest_new\<lparr> request_url := requestURL \<rparr>;
               env2 = qDebug [Text ''Making an authenticated request to'',
                              Text (QUrl_toString requestURL)] env1;
               (networkReply, env3) =
                 (case operation of
                    GetOperation \<Rightarrow> get authenticatedRequest env2
                  | PostOperation \<Rightarrow>
                      post (authenticatedRequest
                              \<lparr> request_contentType := Some ''application/x-www-form-urlencoded'' \<rparr>)
                        dataByteArray env2
                  | _ \<Rightarrow> (None, env2))
           in (case networkReply of
                 Some reply \<Rightarrow>
                   (if \<not> isEmpty callbackParams
                    then am\<lparr> m_pendingCallbackMap :=
                               (m_pendingCallbackMap am)(reply \<mapsto> callbackParams) \<rparr>
                    else am,
                    connect reply ''error(QNetworkReply::NetworkError)''
                        ''passErrorToCallback(QNetworkReply::NetworkError)''
                      (connect reply ''finished()'' ''passSuccessToCallback()'' env3))
               | None \<Rightarrow> (am, env3))
         else (am, env1))"

text \<open>
  \<^verbatim>\<open>authenticatedRequest\<close>, lines 78 to 85, invokes \<^verbatim>\<open>invokedRequest\<close> on the object
  itself with the same four arguments. The call is taken as made at once, which is what
  \<^verbatim>\<open>QMetaObject::invokeMethod\<close> does when caller and object live on one thread.
\<close>

definition authenticatedRequest ::
  "string \<Rightarrow> Operation \<Rightarrow> JSONCallbackParameters \<Rightarrow> string
   \<Rightarrow> AccountManager \<Rightarrow> Env \<Rightarrow> AccountManager \<times> Env" where
  "authenticatedRequest path operation callbackParams dataByteArray am env =
     invokedRequest path operation callbackParams dataByteArray am env"

text \<open>
  \<^verbatim>\<open>passSuccessToCallback\<close>, lines 128 to 146; \<open>requestReply\<close> is the sender of the
  \<^verbatim>\<open>finished()\<close> signal.
\<close>

definition passSuccessToCallback ::
  "QNetworkReply \<Rightarrow> AccountManager \<Rightarrow> Env \<Rightarrow> AccountManager \<times> Env" where
  "passSuccessToCallback requestReply am env =
     (let jsonResponse = reply_json requestReply;
          callbackParams = QMap_value JSONCallbackParameters_default
                             (m_pendingCallbackMap am) (reply_address requestReply)
      in case jsonCallbackReceiver callbackParams of
           Some receiver \<Rightarrow>
             (am\<lparr> m_pendingCallbackMap :=
                     (m_pendingCallbackMap am)(reply_address requestReply := None) \<rparr>,
              invokeMethod receiver (jsonCallbackMethod callbackParams)
                [ArgJsonObject (object jsonResponse)] env)
         | None \<Rightarrow>
             (am,
              qDebug [Json jsonResponse]
                (qDebug [Text ''Received JSON response from data-server that has no matching callback.'']
                   env)))"

text \<open>
  \<^verbatim>\<open>passErrorToCallback\<close>, lines 148 to 164; \<open>requestReply\<close> is the sender of the
  \<^verbatim>\<open>error\<close> signal.
\<close>

definition passErrorToCallback ::
  "NetworkError \<Rightarrow> QNetworkReply \<Rightarrow> AccountManager \<Rightarrow> Env \<Rightarrow> AccountManager \<times> Env" where
  "passErrorToCallback errorCode requestReply am env =
     (let callbackParams = QMap_value JSONCallbackParameters_default
                             (m_pendingCallbackMap am) (reply_address requestReply)
      in case errorCallbackReceiver callbackParams of
           Some receiver \<Rightarrow>
             (am\<lparr> m_pendingCallbackMap :=
                     (m_pendingCallbackMap am)(reply_address requestReply := None) \<rparr>,
              invokeMethod receiver (errorCallbackMethod callbackParams)
                [ArgNetworkError errorCode, ArgString (reply_errorString requestReply)] env)
         | None \<Rightarrow>
             (am,
              qDebug [Text ''Error'', Code errorCode, Text ''-'',
                      Text (reply_errorString requestReply)]
                (qDebug [Text ''Received error response from data-server that has no matching callback.'']
                   env)))"

text \<open>
  \<^verbatim>\<open>requestAccessToken\<close>, lines 188 to 205. The reply is connected with the
  pointer-to-member form of \<^verbatim>\<open>connect\<close> for \<^verbatim>\<open>finished\<close> and with the string form for
  \<^verbatim>\<open>error\<close>. The source connects the reply without testing it for \<^verbatim>\<open>NULL\<close>;
  \<open>post\<close> never returns \<open>None\<close>, so the last case is never taken.
\<close>

definition requestAccessToken ::
  "string \<Rightarrow> string \<Rightarrow> AccountManager \<Rightarrow> Env \<Rightarrow> AccountManager \<times> Env" where
  "requestAccessToken login password am env =
     (let grantURL = setPath ''/oauth/token'' (m_rootURL am);
          postData = ''grant_type=password&'' @ (''username='' @ login @ ''&'')
                     @ (''password='' @ password);
          request = QNetworkRequest_new
                      \<lparr> request_url := grantURL,
                        request_contentType := Some ''application/x-www-form-urlencoded'' \<rparr>;
          (requestReply, env1) = post request postData env
      in case requestReply of
           Some reply \<Rightarrow>
             (am,
              connect reply ''error(QNetworkReply::NetworkError)''
                  ''requestError(QNetworkReply::NetworkError)''
                (connect reply ''QNetworkReply::finished'' ''AccountManager::requestFinished'' env1))
         | None \<Rightarrow> (am, env1))"

text \<open>
  \<^verbatim>\<open>requestFinished\<close>, lines 208 to 242; \<open>requestReply\<close> is the sender of the
  \<^verbatim>\<open>finished\<close> signal. The constructor \<^verbatim>\<open>DataServerAccountInfo(const QJsonObject&)\<close> is
  defined outside the sources and is the argument \<open>fromJson\<close>.
\<close>

definition requestFinished ::
  "(QJsonObject \<Rightarrow> DataServerAccountInfo) \<Rightarrow> QNetworkReply
   \<Rightarrow> AccountManager \<Rightarrow> Env \<Rightarrow> AccountManager \<times> Env" where
  "requestFinished fromJson requestReply am env =
     (let jsonResponse = reply_json requestReply;
          rootObject = object jsonResponse
      in if \<not> contains rootObject ''error'' then
           if \<not> contains rootObject ''access_token'' \<or> \<not> contains rootObject ''expires_in''
              \<or> \<not> contains rootObject ''token_type''
           then (am,
                 qDebug [Text ''Received a response for password grant that is missing one or more expected values.'']
                   env)
           else
             let rootURL = setPath [] (reply_url requestReply);
                 env1 = qDebug [Text ''Storing an account with access-token for'',
                                Text (QUrl_toString rootURL)] env;
                 freshAccountInfo = fromJson rootObject;
                 am1 = am\<lparr> m_accounts := (m_accounts am)(rootURL \<mapsto> freshAccountInfo) \<rparr>;
                 env2 = emit (receivedAccessToken rootURL) env1;
                 env3 = setValue ACCOUNTS_GROUP
                          (replace ''//'' ''slashslash'' (QUrl_toString rootURL))
                          freshAccountInfo env2
             in (am1, env3)
         else (am,
               qDebug [Text ''Error in response for password grant -'',
                       Text (json_toString (json_index rootObject ''error_description''))]
                 env))"

text \<open>\<^verbatim>\<open>requestError\<close>, lines 244 to 247.\<close>

definition requestError :: "NetworkError \<Rightarrow> AccountManager \<Rightarrow> Env \<Rightarrow> AccountManager \<times> Env" where
  "requestError error am env = (am, qDebug [Text ''AccountManager requestError - '', Code error] env)"


section \<open>Example inputs\<close>

text \<open>
  A root URL, an account with a token that expires at 3600000 ms, a manager that holds
  that account for its root URL, and quiet surroundings at time 1000 ms.
\<close>

definition ex_rootURL :: QUrl where
  "ex_rootURL =
     \<lparr> url_scheme = ''https'', url_authority = Some ''data.highfidelity.io'', url_path = [],
       url_query = None, url_fragment = None \<rparr>"

definition ex_info :: DataServerAccountInfo where
  "ex_info =
     \<lparr> accessToken = \<lparr> token = ''abc'', tokenType = ''bearer'', expiryTimestamp = 3600000 \<rparr> \<rparr>"

definition ex_am :: AccountManager where
  "ex_am =
     \<lparr> m_rootURL = ex_rootURL, m_username = ''alice'',
       m_pendingCallbackMap = Map.empty, m_accounts = [ex_rootURL \<mapsto> ex_info] \<rparr>"

definition ex_env :: Env where
  "ex_env =
     \<lparr> currentMSecsSinceEpoch = 1000, networkCalls = [], connections = [],
       invocations = [], emitted = [], settings = Map.empty, debug = [] \<rparr>"

text \<open>
  The reply to a password grant sent to \<^verbatim>\<open>https://data.highfidelity.io/oauth/token\<close>, with
  the token response of the spec.
\<close>

definition ex_reply :: QNetworkReply where
  "ex_reply =
     \<lparr> reply_address = 0,
       reply_url = ex_rootURL\<lparr> url_path := ''/oauth/token'' \<rparr>,
       reply_json = DocObject [(''access_token'', JString ''abc''),
                               (''token_type'', JString ''bearer''),
                               (''expires_in'', JNumber 3600)],
       reply_errorString = [] \<rparr>"

text \<open>The same reply with the \<^verbatim>\<open>access_token\<close> field missing, and with an error response.\<close>

definition ex_missingReply :: QNetworkReply where
  "ex_missingReply =
     ex_reply\<lparr> reply_json := DocObject [(''token_type'', JString ''bearer''),
                                          (''expires_in'', JNumber 3600)] \<rparr>"

definition ex_errorReply :: QNetworkReply where
  "ex_errorReply =
     ex_reply\<lparr> reply_json := DocObject [(''error'', JString ''invalid_grant''),
                                          (''error_description'', JString ''bad password'')] \<rparr>"

text \<open>Callback parameters that name a receiver for errors and none for the JSON result.\<close>

definition ex_errorOnly :: JSONCallbackParameters where
  "ex_errorOnly =
     \<lparr> jsonCallbackReceiver = None, jsonCallbackMethod = [],
       errorCallbackReceiver = Some 7, errorCallbackMethod = ''handleError'' \<rparr>"

text \<open>
  The reply to the first request of \<open>ex_env\<close> (address 0), finished without error and
  carrying a JSON object.
\<close>

definition ex_apiReply :: QNetworkReply where
  "ex_apiReply =
     \<lparr> reply_address = 0,
       reply_url = ex_rootURL\<lparr> url_path := ''/api/v1/users'',
                               url_query := Some ''access_token=abc'' \<rparr>,
       reply_json = DocObject [(''status'', JString ''success'')],
       reply_errorString = [] \<rparr>"


section \<open>Properties of NodePermissions\<close>

lemma index_toVariant_id:
  "index (toMap (toVariant p)) ''permissions_id'' = VString (m_id p)"
  by (simp add: index_def toVariant_def)

lemma index_toVariant_flags:
  "index (toMap (toVariant p)) ''id_can_connect'' = VBool (canConnectToDomain p)"
  "index (toMap (toVariant p)) ''id_can_adjust_locks'' = VBool (canAdjustLocks p)"
  "index (toMap (toVariant p)) ''id_can_rez'' = VBool (canRezPermanentEntities p)"
  "index (toMap (toVariant p)) ''id_can_rez_tmp'' = VBool (canRezTemporaryEntities p)"
  "index (toMap (toVariant p)) ''id_can_write_to_asset_server'' = VBool (canWriteToAssetServer p)"
  "index (toMap (toVariant p)) ''id_can_connect_past_max_capacity'' =
     VBool (canConnectPastMaxCapacity p)"
  by (simp_all add: index_def toVariant_def)

text \<open>
  Claim C5. For every pair of permission values \<open>a\<close> and \<open>b\<close>, after \<^verbatim>\<open>a |= b\<close> each of
  the six capability flags of \<open>a\<close> is the logical OR of that flag in the original \<open>a\<close>
  and in \<open>b\<close>, and the identifier of \<open>a\<close> is unchanged.
\<close>

theorem or_assign_flags_and_id:
  "canConnectToDomain (or_assign a b) = (canConnectToDomain a \<or> canConnectToDomain b)
   \<and> canAdjustLocks (or_assign a b) = (canAdjustLocks a \<or> canAdjustLocks b)
   \<and> canRezPermanentEntities (or_assign a b) =
       (canRezPermanentEntities a \<or> canRezPermanentEntities b)
   \<and> canRezTemporaryEntities (or_assign a b) =
       (canRezTemporaryEntities a \<or> canRezTemporaryEntities b)
   \<and> canWriteToAssetServer (or_assign a b) =
       (canWriteToAssetServer a \<or> canWriteToAssetServer b)
   \<and> canConnectPastMaxCapacity (or_assign a b) =
       (canConnectPastMaxCapacity a \<or> canConnectPastMaxCapacity b)
   \<and> getID (or_assign a b) = getID a"
  by (simp add: or_assign_def getID_def)

text \<open>
  Claim C9. For every permission value \<open>p\<close>, the permissions constructed from the map
  that \<^verbatim>\<open>p.toVariant()\<close> holds have the identifier and the six capability flags of \<open>p\<close>:
  the conversion to the persisted map and back is the identity.
\<close>

theorem fromMap_toVariant_roundtrip:
  "NodePermissions_fromMap (toMap (toVariant p)) = p"
  by (simp add: NodePermissions_fromMap_def index_toVariant_id index_toVariant_flags
      initialized_def)

text \<open>
  Claim C10. A permissions object built by the default (fresh-identifier) constructor
  or by the named constructor permits connecting to the domain and has the other five
  capability flags off; so does the global \<^verbatim>\<open>DEFAULT_AGENT_PERMISSIONS\<close>.
\<close>

theorem constructed_defaults:
  "canConnectToDomain (NodePermissions_fresh uuid) = True
   \<and> canAdjustLocks (NodePermissions_fresh uuid) = False
   \<and> canRezPermanentEntities (NodePermissions_fresh uuid) = False
   \<and> canRezTemporaryEntities (NodePermissions_fresh uuid) = False
   \<and> canWriteToAssetServer (NodePermissions_fresh uuid) = False
   \<and> canConnectPastMaxCapacity (NodePermissions_fresh uuid) = False
   \<and> canConnectToDomain (NodePermissions_named name) = True
   \<and> canAdjustLocks (NodePermissions_named name) = False
   \<and> canRezPermanentEntities (NodePermissions_named name) = False
   \<and> canRezTemporaryEntities (NodePermissions_named name) = False
   \<and> canWriteToAssetServer (NodePermissions_named name) = False
   \<and> canConnectPastMaxCapacity (NodePermissions_named name) = False
   \<and> canConnectToDomain (DEFAULT_AGENT_PERMISSIONS uuid) = True
   \<and> canAdjustLocks (DEFAULT_AGENT_PERMISSIONS uuid) = False
   \<and> canRezPermanentEntities (DEFAULT_AGENT_PERMISSIONS uuid) = False
   \<and> canRezTemporaryEntities (DEFAULT_AGENT_PERMISSIONS uuid) = False
   \<and> canWriteToAssetServer (DEFAULT_AGENT_PERMISSIONS uuid) = False
   \<and> canConnectPastMaxCapacity (DEFAULT_AGENT_PERMISSIONS uuid) = False"
  by (simp add: NodePermissions_fresh_def NodePermissions_named_def
      DEFAULT_AGENT_PERMISSIONS_def initialized_def)


section \<open>Properties of the account manager\<close>

text \<open>The example manager holds a token that is valid at the example time.\<close>

lemma ex_valid: "fst (hasValidAccessToken ex_am ex_env)"
  by (simp add: hasValidAccessToken_def QMap_value_def ex_am_def ex_env_def ex_info_def
      getAccessToken_def isExpired_def)

text \<open>
  Claim C1. For every token response whose JSON object has the fields
  \<^verbatim>\<open>access_token\<close>, \<^verbatim>\<open>expires_in\<close> and \<^verbatim>\<open>token_type\<close> and no \<^verbatim>\<open>error\<close> field,
  \<^verbatim>\<open>requestFinished\<close> stores exactly one account entry, keyed by the URL of the response
  with its path cleared (the rest of the manager is as before), emits exactly one
  \<^verbatim>\<open>receivedAccessToken\<close> signal for that URL, and writes the entry to the settings in
  group \<^verbatim>\<open>accounts\<close> under the string of that URL with \<^verbatim>\<open>//\<close> replaced by
  \<^verbatim>\<open>slashslash\<close>.
\<close>

theorem requestFinished_success:
  assumes "contains (object (reply_json requestReply)) ''access_token''"
    and "contains (object (reply_json requestReply)) ''expires_in''"
    and "contains (object (reply_json requestReply)) ''token_type''"
    and "\<not> contains (object (reply_json requestReply)) ''error''"
  shows "fst (requestFinished fromJson requestReply am env)
           = am\<lparr> m_accounts := (m_accounts am)
               (setPath [] (reply_url requestReply) \<mapsto> fromJson (object (reply_json requestReply))) \<rparr>
         \<and> emitted (snd (requestFinished fromJson requestReply am env))
           = emitted env @ [receivedAccessToken (setPath [] (reply_url requestReply))]
         \<and> settings (snd (requestFinished fromJson requestReply am env))
           = (settings env)
               ((''accounts'',
                 replace ''//'' ''slashslash''
                   (QUrl_toString (setPath [] (reply_url requestReply))))
                \<mapsto> fromJson (object (reply_json requestReply)))"
  using assms
  by (simp add: requestFinished_def Let_def emit_def qDebug_def setValue_def ACCOUNTS_GROUP_def)

text \<open>
  The response of the spec, received from \<^verbatim>\<open>https://data.highfidelity.io/oauth/token\<close> by
  a manager with no account: the entry is stored under \<^verbatim>\<open>https://data.highfidelity.io\<close>
  and saved under the key \<^verbatim>\<open>https:slashslashdata.highfidelity.io\<close>.
\<close>

theorem requestFinished_success_witness:
  "contains (object (reply_json ex_reply)) ''access_token''
   \<and> contains (object (reply_json ex_reply)) ''expires_in''
   \<and> contains (object (reply_json ex_reply)) ''token_type''
   \<and> \<not> contains (object (reply_json ex_reply)) ''error''
   \<and> fst (requestFinished (\<lambda>obj. ex_info) ex_reply (ex_am\<lparr> m_accounts := Map.empty \<rparr>) ex_env)
       = ex_am\<lparr> m_accounts := [ex_rootURL \<mapsto> ex_info] \<rparr>
   \<and> emitted (snd (requestFinished (\<lambda>obj. ex_info) ex_reply
        (ex_am\<lparr> m_accounts := Map.empty \<rparr>) ex_env)) = [receivedAccessToken ex_rootURL]
   \<and> settings (snd (requestFinished (\<lambda>obj. ex_info) ex_reply
        (ex_am\<lparr> m_accounts := Map.empty \<rparr>) ex_env))
       = [(''accounts'', ''https:slashslashdata.highfidelity.io'') \<mapsto> ex_info]"
proof -
  have h: "contains (object (reply_json ex_reply)) ''access_token''"
    "contains (object (reply_json ex_reply)) ''expires_in''"
    "contains (object (reply_json ex_reply)) ''token_type''"
    "\<not> contains (object (reply_json ex_reply)) ''error''"
    by (simp_all add: ex_reply_def contains_def)
  have u: "setPath [] (reply_url ex_reply) = ex_rootURL"
    by (simp add: ex_reply_def setPath_def ex_rootURL_def)
  have k: "replace ''//'' ''slashslash'' (QUrl_toString ex_rootURL)
             = ''https:slashslashdata.highfidelity.io''"
    by (simp add: QUrl_toString_def ex_rootURL_def)
  have e: "emitted ex_env = []" "settings ex_env = Map.empty"
    by (simp_all add: ex_env_def)
  have m: "m_accounts (ex_am\<lparr> m_accounts := Map.empty \<rparr>) = Map.empty"
    by simp
  from requestFinished_success
         [OF h, of "\<lambda>obj. ex_info" "ex_am\<lparr> m_accounts := Map.empty \<rparr>" ex_env] h u k e m
  show ?thesis by simp
qed

text \<open>
  Claim C2. \<^verbatim>\<open>hasValidAccessToken\<close> returns true if and only if the accounts map has an
  entry for the current root URL whose token is not empty and not expired. In
  particular it returns false when there is no entry for the current root URL, and
  false when the expiry of the stored token lies before the current time.
\<close>

theorem hasValidAccessToken_iff:
  "(fst (hasValidAccessToken am env) \<longleftrightarrow>
      (\<exists>info. m_accounts am (m_rootURL am) = Some info
         \<and> token (getAccessToken info) \<noteq> []
         \<and> \<not> isExpired (currentMSecsSinceEpoch env) (getAccessToken info)))
   \<and> (m_accounts am (m_rootURL am) = None \<longrightarrow> \<not> fst (hasValidAccessToken am env))
   \<and> (\<forall>info. m_accounts am (m_rootURL am) = Some info
         \<and> expiryTimestamp (getAccessToken info) < currentMSecsSinceEpoch env
        \<longrightarrow> \<not> fst (hasValidAccessToken am env))"
  by (auto simp: hasValidAccessToken_def QMap_value_def DataServerAccountInfo_default_def
      getAccessToken_def isExpired_def Let_def split: option.splits)

text \<open>
  The example manager has a valid token at time 1000; without the account it has none;
  at time 3600001 the token has expired.
\<close>

theorem hasValidAccessToken_iff_witness:
  "fst (hasValidAccessToken ex_am ex_env)
   \<and> m_accounts (ex_am\<lparr> m_accounts := Map.empty \<rparr>)
        (m_rootURL (ex_am\<lparr> m_accounts := Map.empty \<rparr>)) = None
   \<and> \<not> fst (hasValidAccessToken (ex_am\<lparr> m_accounts := Map.empty \<rparr>) ex_env)
   \<and> m_accounts ex_am (m_rootURL ex_am) = Some ex_info
   \<and> expiryTimestamp (getAccessToken ex_info)
        < currentMSecsSinceEpoch (ex_env\<lparr> currentMSecsSinceEpoch := 3600001 \<rparr>)
   \<and> \<not> fst (hasValidAccessToken ex_am (ex_env\<lparr> currentMSecsSinceEpoch := 3600001 \<rparr>))"
proof -
  have a: "m_accounts ex_am (m_rootURL ex_am) = Some ex_info"
    by (simp add: ex_am_def)
  have t: "token (getAccessToken ex_info) \<noteq> []
           \<and> \<not> isExpired (currentMSecsSinceEpoch ex_env) (getAccessToken ex_info)"
    by (simp add: ex_info_def ex_env_def getAccessToken_def isExpired_def)
  have e: "expiryTimestamp (getAccessToken ex_info)
             < currentMSecsSinceEpoch (ex_env\<lparr> currentMSecsSinceEpoch := 3600001 \<rparr>)"
    by (simp add: ex_info_def getAccessToken_def)
  have v: "fst (hasValidAccessToken ex_am ex_env)"
    using hasValidAccessToken_iff [of ex_am ex_env] a t by blast
  have n: "\<not> fst (hasValidAccessToken (ex_am\<lparr> m_accounts := Map.empty \<rparr>) ex_env)"
    using hasValidAccessToken_iff [of "ex_am\<lparr> m_accounts := Map.empty \<rparr>" ex_env] by simp
  have x: "\<not> fst (hasValidAccessToken ex_am (ex_env\<lparr> currentMSecsSinceEpoch := 3600001 \<rparr>))"
    using hasValidAccessToken_iff [of ex_am "ex_env\<lparr> currentMSecsSinceEpoch := 3600001 \<rparr>"] a e
    by blast
  from a e v n x show ?thesis by simp
qed

text \<open>
  Claim C3. When \<^verbatim>\<open>hasValidAccessToken\<close> is false, \<^verbatim>\<open>authenticatedRequest\<close> (which is
  \<^verbatim>\<open>invokedRequest\<close>) leaves the manager as it is, so the accounts map and the
  pending-callback map are unchanged and no callback is registered, and it makes no
  network call: all it does is the debug line of the failed token test.
\<close>

theorem authenticatedRequest_without_token:
  assumes "\<not> fst (hasValidAccessToken am env)"
  shows "authenticatedRequest path operation callbackParams dataByteArray am env =
           invokedRequest path operation callbackParams dataByteArray am env
         \<and> invokedRequest path operation callbackParams dataByteArray am env =
             (am, qDebug [Text ''An access token is required for requests to'',
                          Text (QUrl_toString (m_rootURL am))] env)
         \<and> networkCalls (snd (invokedRequest path operation callbackParams dataByteArray am env))
             = networkCalls env
         \<and> m_pendingCallbackMap
               (fst (invokedRequest path operation callbackParams dataByteArray am env))
             = m_pendingCallbackMap am
         \<and> m_accounts (fst (invokedRequest path operation callbackParams dataByteArray am env))
             = m_accounts am"
proof -
  from assms have h: "hasValidAccessToken am env =
      (False, qDebug [Text ''An access token is required for requests to'',
                      Text (QUrl_toString (m_rootURL am))] env)"
    by (simp add: hasValidAccessToken_def Let_def split: if_splits)
  then have "invokedRequest path operation callbackParams dataByteArray am env =
      (am, qDebug [Text ''An access token is required for requests to'',
                   Text (QUrl_toString (m_rootURL am))] env)"
    by (simp add: invokedRequest_def)
  then show ?thesis
    by (simp add: authenticatedRequest_def qDebug_def)
qed

text \<open>A GET with callback parameters on the example manager without its account.\<close>

theorem authenticatedRequest_without_token_witness:
  "\<not> fst (hasValidAccessToken (ex_am\<lparr> m_accounts := Map.empty \<rparr>) ex_env)
   \<and> networkCalls (snd (invokedRequest ''/api/v1/users'' GetOperation ex_errorOnly []
        (ex_am\<lparr> m_accounts := Map.empty \<rparr>) ex_env)) = []
   \<and> m_pendingCallbackMap (fst (invokedRequest ''/api/v1/users'' GetOperation ex_errorOnly []
        (ex_am\<lparr> m_accounts := Map.empty \<rparr>) ex_env)) = Map.empty"
proof -
  have h: "\<not> fst (hasValidAccessToken (ex_am\<lparr> m_accounts := Map.empty \<rparr>) ex_env)"
    by (simp add: hasValidAccessToken_def QMap_value_def DataServerAccountInfo_default_def
        getAccessToken_def)
  have p: "m_pendingCallbackMap (ex_am\<lparr> m_accounts := Map.empty \<rparr>) = Map.empty"
    by (simp add: ex_am_def)
  have c: "networkCalls ex_env = []"
    by (simp add: ex_env_def)
  from authenticatedRequest_without_token
         [OF h, of "''/api/v1/users''" GetOperation ex_errorOnly "[]"] h p c
  show ?thesis by (simp add: qDebug_def)
qed

text \<open>
  Claim C4. For every token response whose JSON object has an \<^verbatim>\<open>error\<close> field, or lacks
  one of \<^verbatim>\<open>access_token\<close>, \<^verbatim>\<open>expires_in\<close> and \<^verbatim>\<open>token_type\<close>, \<^verbatim>\<open>requestFinished\<close>
  leaves the whole manager unchanged (no account is stored), emits no signal, writes
  nothing to the settings and makes no network call (no retry): it only executes one
  debug statement.
\<close>

theorem requestFinished_rejected:
  assumes "contains (object (reply_json requestReply)) ''error''
           \<or> \<not> contains (object (reply_json requestReply)) ''access_token''
           \<or> \<not> contains (object (reply_json requestReply)) ''expires_in''
           \<or> \<not> contains (object (reply_json requestReply)) ''token_type''"
  shows "fst (requestFinished fromJson requestReply am env) = am
         \<and> (\<exists>line. snd (requestFinished fromJson requestReply am env) = qDebug line env)
         \<and> emitted (snd (requestFinished fromJson requestReply am env)) = emitted env
         \<and> settings (snd (requestFinished fromJson requestReply am env)) = settings env
         \<and> networkCalls (snd (requestFinished fromJson requestReply am env)) = networkCalls env"
  using assms
  by (auto simp: requestFinished_def Let_def qDebug_def)

text \<open>
  The response of the spec without its \<^verbatim>\<open>access_token\<close> field, and an error response,
  each received by the example manager without its account.
\<close>

theorem requestFinished_rejected_witness:
  "\<not> contains (object (reply_json ex_missingReply)) ''access_token''
   \<and> fst (requestFinished (\<lambda>obj. ex_info) ex_missingReply
        (ex_am\<lparr> m_accounts := Map.empty \<rparr>) ex_env) = ex_am\<lparr> m_accounts := Map.empty \<rparr>
   \<and> emitted (snd (requestFinished (\<lambda>obj. ex_info) ex_missingReply
        (ex_am\<lparr> m_accounts := Map.empty \<rparr>) ex_env)) = []
   \<and> contains (object (reply_json ex_errorReply)) ''error''
   \<and> fst (requestFinished (\<lambda>obj. ex_info) ex_errorReply
        (ex_am\<lparr> m_accounts := Map.empty \<rparr>) ex_env) = ex_am\<lparr> m_accounts := Map.empty \<rparr>
   \<and> emitted (snd (requestFinished (\<lambda>obj. ex_info) ex_errorReply
        (ex_am\<lparr> m_accounts := Map.empty \<rparr>) ex_env)) = []"
proof -
  have h: "\<not> contains (object (reply_json ex_missingReply)) ''access_token''"
    by (simp add: ex_missingReply_def contains_def)
  have g: "contains (object (reply_json ex_errorReply)) ''error''"
    by (simp add: ex_errorReply_def contains_def)
  have e: "emitted ex_env = []"
    by (simp add: ex_env_def)
  from requestFinished_rejected
         [of ex_missingReply "\<lambda>obj. ex_info" "ex_am\<lparr> m_accounts := Map.empty \<rparr>" ex_env]
       requestFinished_rejected
         [of ex_errorReply "\<lambda>obj. ex_info" "ex_am\<lparr> m_accounts := Map.empty \<rparr>" ex_env]
       h g e
  show ?thesis by simp
qed

text \<open>
  Claim C6. Every request in flight that was registered with callback parameters has
  one entry in the pending-callback map, and the entry is removed when the response is
  delivered, be it a success or an error. The code does not do this for callback
  parameters that name an error receiver only: \<^verbatim>\<open>invokedRequest\<close> registers them, and
  when the request finishes without error \<^verbatim>\<open>passSuccessToCallback\<close> finds no JSON
  receiver, logs, and leaves the entry in the map with no callback invoked.
\<close>

theorem pendingCallback_left_after_success:
  "fst (hasValidAccessToken ex_am ex_env)
   \<and> \<not> isEmpty ex_errorOnly
   \<and> (let (am1, env1) = invokedRequest ''/api/v1/users'' GetOperation ex_errorOnly [] ex_am ex_env;
           (am2, env2) = passSuccessToCallback ex_apiReply am1 env1
       in m_pendingCallbackMap am1 0 = Some ex_errorOnly
          \<and> connections env1 =
               [(0, ''finished()'', ''passSuccessToCallback()''),
                (0, ''error(QNetworkReply::NetworkError)'',
                    ''passErrorToCallback(QNetworkReply::NetworkError)'')]
          \<and> m_pendingCallbackMap am2 0 = Some ex_errorOnly
          \<and> invocations env2 = [])"
proof -
  define am1 where "am1 = ex_am\<lparr> m_pendingCallbackMap := [0 \<mapsto> ex_errorOnly] \<rparr>"
  define env1 where "env1 =
    connect 0 ''error(QNetworkReply::NetworkError)''
        ''passErrorToCallback(QNetworkReply::NetworkError)''
      (connect 0 ''finished()'' ''passSuccessToCallback()''
         (snd (get \<lparr> request_url = ex_rootURL\<lparr> url_path := ''/api/v1/users'',
                           url_query := Some ''access_token=abc'' \<rparr>,
                      request_contentType = None \<rparr>
            (qDebug [Text ''Making an authenticated request to'',
                     Text ''https://data.highfidelity.io/api/v1/users?access_token=abc'']
               ex_env))))"
  have v: "hasValidAccessToken ex_am ex_env = (True, ex_env)"
    by (simp add: hasValidAccessToken_def QMap_value_def ex_am_def ex_env_def ex_info_def
        getAccessToken_def isExpired_def)
  have e: "\<not> isEmpty ex_errorOnly"
    by (simp add: isEmpty_def ex_errorOnly_def)
  have r: "invokedRequest ''/api/v1/users'' GetOperation ex_errorOnly [] ex_am ex_env
             = (am1, env1)"
    unfolding invokedRequest_def v am1_def env1_def using e
    by (simp add: Let_def QMap_value_def get_def qDebug_def
        setPath_def setQuery_def QNetworkRequest_new_def QUrl_toString_def
        ex_am_def ex_info_def ex_rootURL_def ex_env_def getAccessToken_def)
  have p: "m_pendingCallbackMap am1 0 = Some ex_errorOnly"
    by (simp add: am1_def)
  have c: "connections env1 =
             [(0, ''finished()'', ''passSuccessToCallback()''),
              (0, ''error(QNetworkReply::NetworkError)'',
                  ''passErrorToCallback(QNetworkReply::NetworkError)'')]"
    and i: "invocations env1 = []"
    by (simp_all add: env1_def connect_def get_def qDebug_def ex_env_def)
  have s: "passSuccessToCallback ex_apiReply am1 env1 =
             (am1,
              qDebug [Json (reply_json ex_apiReply)]
                (qDebug [Text ''Received JSON response from data-server that has no matching callback.'']
                   env1))"
    by (simp add: passSuccessToCallback_def QMap_value_def am1_def ex_apiReply_def
        ex_errorOnly_def)
  show ?thesis
    by (simp add: r s v e p c i qDebug_def)
qed

text \<open>
  Claim C7. \<^verbatim>\<open>setRootURL(u)\<close> clears the username when \<open>u\<close> differs from the current
  root URL (accounts and pending callbacks stay), and changes nothing at all when \<open>u\<close>
  is the current root URL; in both cases the root URL is \<open>u\<close> afterwards.
\<close>

theorem setRootURL_effect:
  "(m_rootURL am \<noteq> u \<longrightarrow>
      fst (setRootURL u am env) = am\<lparr> m_rootURL := u, m_username := [] \<rparr>)
   \<and> (m_rootURL am = u \<longrightarrow> setRootURL u am env = (am, env))
   \<and> m_rootURL (fst (setRootURL u am env)) = u"
  by (simp add: setRootURL_def)

text \<open>
  The example manager, user \<^verbatim>\<open>alice\<close>, set to the null URL and set to its own root URL.
\<close>

theorem setRootURL_effect_witness:
  "m_rootURL ex_am \<noteq> QUrl_null
   \<and> fst (setRootURL QUrl_null ex_am ex_env) = ex_am\<lparr> m_rootURL := QUrl_null, m_username := [] \<rparr>
   \<and> m_username (fst (setRootURL QUrl_null ex_am ex_env)) = []
   \<and> m_rootURL ex_am = ex_rootURL
   \<and> setRootURL ex_rootURL ex_am ex_env = (ex_am, ex_env)
   \<and> m_username (fst (setRootURL ex_rootURL ex_am ex_env)) = ''alice''"
proof -
  have d: "m_rootURL ex_am \<noteq> QUrl_null"
    by (simp add: ex_am_def ex_rootURL_def QUrl_null_def)
  have s: "m_rootURL ex_am = ex_rootURL"
    by (simp add: ex_am_def)
  have n: "m_username ex_am = ''alice''"
    by (simp add: ex_am_def)
  from d s n setRootURL_effect [of ex_am QUrl_null ex_env]
    setRootURL_effect [of ex_am ex_rootURL ex_env]
  show ?thesis by simp
qed

text \<open>
  Claim C8. When \<^verbatim>\<open>hasValidAccessToken\<close> is true and the operation is GET or POST,
  \<^verbatim>\<open>invokedRequest\<close> makes exactly one network call, whose request has the current root
  URL with the path set to the given path and the query set to \<^verbatim>\<open>access_token=\<close>
  followed by the token stored for the current root URL. The token is in the query:
  the request of a GET has no header, that of a POST only the content type.
\<close>

theorem invokedRequest_dispatch:
  assumes "fst (hasValidAccessToken am env)"
    and "operation = GetOperation \<or> operation = PostOperation"
  shows "\<exists>info. m_accounts am (m_rootURL am) = Some info
           \<and> networkCalls (snd (invokedRequest path operation callbackParams dataByteArray am env))
               = networkCalls env @
                 [let requestURL = (m_rootURL am)
                        \<lparr> url_path := path,
                          url_query := Some (''access_token='' @ token (getAccessToken info)) \<rparr>
                  in if operation = GetOperation
                     then Get \<lparr> request_url = requestURL, request_contentType = None \<rparr>
                     else Post \<lparr> request_url = requestURL,
                                 request_contentType = Some ''application/x-www-form-urlencoded'' \<rparr>
                            dataByteArray]"
proof -
  from assms(1) have v: "hasValidAccessToken am env = (True, env)"
    by (simp add: hasValidAccessToken_def Let_def split: if_splits)
  from assms(1) obtain info where i: "m_accounts am (m_rootURL am) = Some info"
    by (cases "m_accounts am (m_rootURL am)")
       (simp_all add: hasValidAccessToken_def Let_def QMap_value_def
          DataServerAccountInfo_default_def getAccessToken_def)
  from assms(2) show ?thesis
  proof
    assume "operation = GetOperation"
    with v i show ?thesis
      by (simp add: invokedRequest_def Let_def QMap_value_def get_def qDebug_def connect_def
          setPath_def setQuery_def QNetworkRequest_new_def)
  next
    assume "operation = PostOperation"
    with v i show ?thesis
      by (simp add: invokedRequest_def Let_def QMap_value_def post_def qDebug_def connect_def
          setPath_def setQuery_def QNetworkRequest_new_def)
  qed
qed

text \<open>A POST to \<^verbatim>\<open>/api/v1/users\<close> by the example manager, whose token is \<^verbatim>\<open>abc\<close>.\<close>

theorem invokedRequest_dispatch_witness:
  "fst (hasValidAccessToken ex_am ex_env)
   \<and> networkCalls (snd (invokedRequest ''/api/v1/users'' PostOperation ex_errorOnly ''a=1''
        ex_am ex_env))
     = [Post \<lparr> request_url = ex_rootURL\<lparr> url_path := ''/api/v1/users'',
                                          url_query := Some ''access_token=abc'' \<rparr>,
               request_contentType = Some ''application/x-www-form-urlencoded'' \<rparr> ''a=1'']"
proof -
  have a: "m_accounts ex_am (m_rootURL ex_am) = Some ex_info" "m_rootURL ex_am = ex_rootURL"
    by (simp_all add: ex_am_def)
  have t: "token (getAccessToken ex_info) = ''abc''"
    by (simp add: ex_info_def getAccessToken_def)
  have c: "networkCalls ex_env = []"
    by (simp add: ex_env_def)
  from invokedRequest_dispatch [OF ex_valid, of PostOperation "''/api/v1/users''" ex_errorOnly "''a=1''"]
    a t c ex_valid
  show ?thesis by simp
qed

end
